theory Spec2Isabelle
  imports Main "HOL-Library.Word"
begin

unbundle bit_operations_syntax

section \<open>The demo program main.cpp of MasterLT_EPOS4Demo\<close>

text \<open>
  main.cpp drives one EPOS4 positioning controller through the EPOS4 class library, FreeRTOS
  and the ESP-IDF. None of the three is part of the repository: the model observes them at
  the call boundary. A run of a function of main.cpp is the list of the calls it makes to
  the outside, in program order, together with how far control got; what the outside
  answers is read from a record of parameters.
\<close>

subsection \<open>Names and types that main.cpp takes from the library headers\<close>

type_synonym ERROR_CODE_t = "32 word"

datatype NMT_COMMAND = NMT_COMMAND_GOTO_PRE_OPERATIONAL | NMT_COMMAND_GOTO_OPERATIONAL

datatype OD_OBJECT =
    EPOS_OD_CONTROLWORD
  | EPOS_OD_STATUSWORD
  | EPOS_OD_PROFILE_VELOCITY
  | EPOS_OD_PROFILE_ACCELERATION
  | EPOS_OD_PROFILE_DECELERATION
  | EPOS_OD_TARGET_POSITION
  | EPOS_OD_POSITION_ACTUAL_VALUE
  | EPOS_OD_VELOCITY_ACTUAL_VALUE
  | EPOS_OD_VELOCITY_ACTUAL_VALUES_VELOCITY_ACTUAL_VALUE_AVERAGED
  | EPOS_OD_TRANSMIT_PDO_1_PARAMETER_INHIBIT_TIME_TXPDO_1

datatype PDO_NUMBER = RXPDO1 | RXPDO2 | TXPDO1

datatype PDO_TRANSMISSION_MODE = PDO_TRANSMISSION_MODE_SYNC | PDO_TRANSMISSION_MODE_ASYNC

text \<open>
  \<open>PDO_MAPPING_t\<close> is only ever built by a four-place aggregate initialiser whose last
  place is the empty list, so it is modelled as the tuple of the four places.
\<close>

type_synonym PDO_MAPPING_t =
  "PDO_NUMBER \<times> PDO_TRANSMISSION_MODE \<times> OD_OBJECT list \<times> OD_OBJECT list"

datatype CW_BITS = CW_BITS_NEW_SET_POINT | CW_BITS_ABS_OR_RELATIVE | CW_BITS_HALT

datatype SW_BITS = SW_BITS_TARGET_REACHED

datatype EPOS_OPERATION_MODE = EPOS_OPERATION_MODE_PVM | EPOS_OPERATION_MODE_PPM

datatype log_level = ESP_LOGI | ESP_LOGW | ESP_LOGE

record twai_message_t =
  msg_identifier :: "32 word"
  msg_data :: "8 word list"

subsection \<open>The constants of main.cpp\<close>

definition motorNodeID :: nat where
  "motorNodeID = 1"

definition masterNodeID :: nat where
  "masterNodeID = 127"

definition RxPDO_ControlWord_Synchronous :: string where
  "RxPDO_ControlWord_Synchronous = ''CWS''"

definition RxPDO_Profile_Velocity :: string where
  "RxPDO_Profile_Velocity = ''PV''"

definition TxPDO_StatusWord_Position :: string where
  "TxPDO_StatusWord_Position = ''SP''"

subsection \<open>Calls to the outside\<close>

text \<open>
  One constructor for each library, FreeRTOS and ESP-IDF entry point that main.cpp calls,
  with the arguments of the call. \<open>Wait\<close> is the \<open>wait(ms)\<close> used throughout; \<open>Log\<close> is
  \<open>ESP_LOGI\<close>, \<open>ESP_LOGW\<close> or \<open>ESP_LOGE\<close> with its tag and format string.
  \<open>SendSDO\<close> carries its optional third argument as an option.
\<close>

datatype call =
    Esp_log_level_set string
  | TWAISetup nat
  | XTaskCreate string nat nat
  | Log log_level string string
  | Wait nat
  | Disable
  | ClearError
  | ChangeNMTState NMT_COMMAND
  | ResetNumPDOMapped
  | ConfigPDO string PDO_MAPPING_t
  | SendSDO OD_OBJECT int "nat option"
  | SetHeartbeatConsumer nat nat
  | Halt
  | Enable
  | SetModeOfOperation EPOS_OPERATION_MODE
  | MoveToTargetVelocity int
  | MoveToTargetPosition int bool bool
  | GetODpair OD_OBJECT
  | SendRxPDO string "int list"
  | SetControlWordBits "CW_BITS list" "bool list"
  | BroadcastSync
  | GetBitFromStatusWord SW_BITS
  | GetODvalue OD_OBJECT
  | LocalOD OD_OBJECT
  | SendHeartbeat nat
  | XTaskGetTickCount
  | XTaskDelayUntil "32 word" "32 word"
  | Twai_receive nat
  | Receiver twai_message_t
  | ParseError ERROR_CODE_t

subsection \<open>What the outside answers\<close>

text \<open>
  The results that main.cpp reads back from the code it calls, and the values of the
  library and FreeRTOS constants it names. main.cpp fixes none of them, so every function
  of the model takes them as the parameter \<open>L\<close>.
  A call whose result main.cpp asks for repeatedly in a loop (the status-word bit, the
  heartbeat send, the frame reception) is answered by the number of the request, counted
  from 0, so that the answers may change from one request to the next.
  \<open>sendSDO\<close> is the result of a \<open>sendSDO\<close> call; main.cpp never reads it.
\<close>

record lib =
  ERROR_CODE_NOERROR :: ERROR_CODE_t
  MASTER_ERROR_CODE_GENERIC_ERROR :: ERROR_CODE_t
  configTICK_RATE_HZ :: nat
  xTaskGetTickCount :: "32 word"
  changeNMTState :: "NMT_COMMAND \<Rightarrow> ERROR_CODE_t"
  configPDO :: "string \<Rightarrow> PDO_MAPPING_t \<Rightarrow> ERROR_CODE_t"
  sendSDO :: "OD_OBJECT \<Rightarrow> int \<Rightarrow> ERROR_CODE_t"
  getODpair :: "OD_OBJECT \<Rightarrow> 32 word \<times> 8 word"
  setControlWordBits :: "CW_BITS list \<Rightarrow> bool list \<Rightarrow> 16 word"
  getBitFromStatusWord :: "SW_BITS \<Rightarrow> nat \<Rightarrow> int"
  sendHeartbeat :: "nat \<Rightarrow> nat \<Rightarrow> ERROR_CODE_t"
  twai_receive :: "nat \<Rightarrow> twai_message_t option"
  receiver :: "twai_message_t \<Rightarrow> ERROR_CODE_t"
  parseError :: "ERROR_CODE_t \<Rightarrow> nat"

subsection \<open>Runs\<close>

text \<open>
  Four loops of main.cpp are \<open>while (true)\<close> and a fifth polls without a bound, so a run is
  cut by fuel: every loop executes at most \<open>n\<close> iterations, and a run that is cut inside a
  loop says which. Straight-line code never consumes fuel. \<open>then_do\<close> is sequential
  composition: what follows a statement runs only when the statement returned.
\<close>

datatype loop = Receiver_Loop | Heartbeat_Loop | Poll_Loop | Demo_Loop | Failure_Loop

datatype status = Returned | Spinning loop

type_synonym run = "call list \<times> status"

definition calls :: "run \<Rightarrow> call list" where
  "calls r = fst r"

definition outcome :: "run \<Rightarrow> status" where
  "outcome r = snd r"

definition straight :: "call list \<Rightarrow> run" where
  "straight cs = (cs, Returned)"

definition then_do :: "run \<Rightarrow> run \<Rightarrow> run" where
  "then_do r k =
     (case snd r of
        Returned \<Rightarrow> (fst r @ fst k, snd k)
      | Spinning l \<Rightarrow> r)"

subsection \<open>receiverTask (lines 49 to 82)\<close>

text \<open>
  The three tests of the if / else-if chain on \<open>EPOS4::parseError(error_code)\<close>, each as
  the source writes it, and the branch the chain enters. The bodies of the branches are
  comments in the source, so the branch entered is all there is to observe.
\<close>

definition is_master_error :: "nat \<Rightarrow> bool" where
  "is_master_error p = (p = 1)"

definition is_sdo_error :: "nat \<Rightarrow> bool" where
  "is_sdo_error p = (p = 2)"

definition is_epos_error :: "nat \<Rightarrow> bool" where
  "is_epos_error p = (p AND 124 \<noteq> 0)"

datatype branch = Master_Error | SDO_Error | EPOS_Error | No_Branch

definition error_branch :: "nat \<Rightarrow> branch" where
  "error_branch p =
     (if is_master_error p then Master_Error
      else if is_sdo_error p then SDO_Error
      else if is_epos_error p then EPOS_Error
      else No_Branch)"

definition matching_tests :: "nat \<Rightarrow> nat" where
  "matching_tests p = length (filter id [is_master_error p, is_sdo_error p, is_epos_error p])"

text \<open>
  One reception: \<open>twai_receive\<close> with a 1000 ms bound; a received frame is handed to
  \<open>motor.receiver\<close> and its error code to \<open>parseError\<close>, once per test reached.
\<close>

definition receive_once :: "lib \<Rightarrow> nat \<Rightarrow> call list" where
  "receive_once L k =
     Twai_receive 1000 #
     (case twai_receive L k of
        None \<Rightarrow> []
      | Some message \<Rightarrow>
          (let error_code = receiver L message; p = parseError L error_code in
           Receiver message # ParseError error_code #
           (if is_master_error p then []
            else ParseError error_code #
              (if is_sdo_error p then [] else [ParseError error_code]))))"

fun receiver_loop :: "lib \<Rightarrow> nat \<Rightarrow> nat \<Rightarrow> run" where
  "receiver_loop L k 0 = ([], Spinning Receiver_Loop)"
| "receiver_loop L k (Suc n) =
     then_do (straight (receive_once L k)) (receiver_loop L (Suc k) n)"

definition receiverTask :: "lib \<Rightarrow> nat \<Rightarrow> run" where
  "receiverTask L n =
     then_do (straight [Log ESP_LOGI ''receiverTask'' ''Starting Task''])
       (receiver_loop L 0 n)"

subsection \<open>PDOHelper (lines 91 to 128)\<close>

text \<open>
  \<open>ret\<close> is a \<open>uint32_t\<close> that starts at 0 and collects the results of the three
  \<open>configPDO\<close> calls with \<open>|=\<close>. The results of \<open>resetNumPDOMapped\<close> and of the
  \<open>sendSDO\<close> that sets the inhibit time are not assigned to anything.
\<close>

definition PDOHelper_ret :: "lib \<Rightarrow> 32 word" where
  "PDOHelper_ret L =
     (let ret = 0;
          ret = ret OR configPDO L RxPDO_ControlWord_Synchronous
                  (RXPDO1, PDO_TRANSMISSION_MODE_SYNC, [EPOS_OD_CONTROLWORD], []);
          ret = ret OR configPDO L RxPDO_Profile_Velocity
                  (RXPDO2, PDO_TRANSMISSION_MODE_ASYNC, [EPOS_OD_PROFILE_VELOCITY], []);
          ret = ret OR configPDO L TxPDO_StatusWord_Position
                  (TXPDO1, PDO_TRANSMISSION_MODE_ASYNC,
                   [EPOS_OD_STATUSWORD, EPOS_OD_POSITION_ACTUAL_VALUE], [])
      in ret)"

definition PDOHelper_calls :: "call list" where
  "PDOHelper_calls =
     [ResetNumPDOMapped,
      Wait 100,
      ConfigPDO RxPDO_ControlWord_Synchronous
        (RXPDO1, PDO_TRANSMISSION_MODE_SYNC, [EPOS_OD_CONTROLWORD], []),
      ConfigPDO RxPDO_Profile_Velocity
        (RXPDO2, PDO_TRANSMISSION_MODE_ASYNC, [EPOS_OD_PROFILE_VELOCITY], []),
      ConfigPDO TxPDO_StatusWord_Position
        (TXPDO1, PDO_TRANSMISSION_MODE_ASYNC,
         [EPOS_OD_STATUSWORD, EPOS_OD_POSITION_ACTUAL_VALUE], []),
      SendSDO EPOS_OD_TRANSMIT_PDO_1_PARAMETER_INHIBIT_TIME_TXPDO_1 100 (Some 1)]"

definition PDOHelper :: "lib \<Rightarrow> call list \<times> ERROR_CODE_t" where
  "PDOHelper L =
     (PDOHelper_calls,
      if PDOHelper_ret L \<noteq> 0 then MASTER_ERROR_CODE_GENERIC_ERROR L
      else ERROR_CODE_NOERROR L)"

text \<open>Which calls of a run write configuration to the node.\<close>

fun is_config_write :: "call \<Rightarrow> bool" where
  "is_config_write (ConfigPDO name configuration) = True"
| "is_config_write (SendSDO object v sz) = True"
| "is_config_write c = False"

subsection \<open>heartbeatTask (lines 133 to 152)\<close>

text \<open>
  \<open>hbLastSendTime\<close> and \<open>sendFrequency\<close> are \<open>TickType_t\<close>, 32 bits on the ESP32.
  \<open>xTaskDelayUntil (&hbLastSendTime, sendFrequency)\<close> is FreeRTOS: it blocks the task until
  tick \<open>hbLastSendTime + sendFrequency\<close> and stores that tick in \<open>hbLastSendTime\<close>, the
  sum wrapping at 32 bits. The call is recorded with the two values it is given.
\<close>

definition sendFrequency :: "lib \<Rightarrow> 32 word" where
  "sendFrequency L = of_nat (configTICK_RATE_HZ L)"

definition heartbeat_round :: "lib \<Rightarrow> 32 word \<Rightarrow> nat \<Rightarrow> call list" where
  "heartbeat_round L hbLastSendTime k =
     SendHeartbeat masterNodeID #
     (if sendHeartbeat L masterNodeID k \<noteq> ERROR_CODE_NOERROR L
      then [Log ESP_LOGI ''heartbeatTask'' ''HEARTBEAT_SEND_ERROR'']
      else []) @
     [XTaskDelayUntil hbLastSendTime (sendFrequency L)]"

fun heartbeat_loop :: "lib \<Rightarrow> 32 word \<Rightarrow> nat \<Rightarrow> nat \<Rightarrow> run" where
  "heartbeat_loop L hbLastSendTime k 0 = ([], Spinning Heartbeat_Loop)"
| "heartbeat_loop L hbLastSendTime k (Suc n) =
     then_do (straight (heartbeat_round L hbLastSendTime k))
       (heartbeat_loop L (hbLastSendTime + sendFrequency L) (Suc k) n)"

definition heartbeatTask :: "lib \<Rightarrow> nat \<Rightarrow> run" where
  "heartbeatTask L n =
     then_do (straight [Log ESP_LOGI ''heartbeatTask'' ''Starting Task'', XTaskGetTickCount])
       (heartbeat_loop L (xTaskGetTickCount L) 0 n)"

text \<open>
  The length in milliseconds of a number of ticks at the configured tick rate. The period
  of the heartbeat is read off a run of the task: each \<open>xTaskDelayUntil\<close> of the run
  moves the wake-up time by the increment it is given, so the periods of a run are its
  increments, in milliseconds.
\<close>

definition ticks_to_ms :: "lib \<Rightarrow> nat \<Rightarrow> nat" where
  "ticks_to_ms L ticks = ticks * 1000 div configTICK_RATE_HZ L"

fun delay_increments :: "call list \<Rightarrow> 32 word list" where
  "delay_increments [] = []"
| "delay_increments (XTaskDelayUntil previous increment # cs) =
     increment # delay_increments cs"
| "delay_increments (c # cs) = delay_increments cs"

definition heartbeat_periods_ms :: "lib \<Rightarrow> call list \<Rightarrow> nat list" where
  "heartbeat_periods_ms L cs =
     map (\<lambda>increment. ticks_to_ms L (unat increment)) (delay_increments cs)"

subsection \<open>app_main (lines 164 to 319)\<close>

text \<open>Lines 167 to 178: logging, the bus driver, the two tasks, a known starting state.\<close>

definition startup :: "call list" where
  "startup =
     [Esp_log_level_set ''*'',
      TWAISetup 500,
      XTaskCreate ''receiverTask'' 4096 4,
      XTaskCreate ''heartbeat'' 4096 4,
      Disable,
      ClearError]"

text \<open>Lines 204 to 229: the Profile Velocity and Profile Position demonstrations.\<close>

definition profile_modes :: "call list" where
  "profile_modes =
     [Log ESP_LOGI ''Axis State'' ''Enabling...'',
      Halt,
      Enable,
      Log ESP_LOGI ''Profile Velocity'' ''Changing Mode'',
      SetModeOfOperation EPOS_OPERATION_MODE_PVM,
      Log ESP_LOGI ''Profile Velocity'' ''Starting Motion...'',
      MoveToTargetVelocity 120,
      Wait 1000,
      Halt,
      Log ESP_LOGI ''Profile Velocity'' ''Stopping'',
      Wait 1000,
      Log ESP_LOGI ''Profile Position'' ''Changing Mode'',
      SetModeOfOperation EPOS_OPERATION_MODE_PPM,
      Log ESP_LOGI ''Profile Position'' ''Starting Motion...'',
      MoveToTargetPosition 1000 True True,
      Log ESP_LOGI ''Profile Position'' ''Motion Complete'',
      Wait 1000]"

text \<open>
  Lines 240 to 250: the three reads of the old profile. \<open>statusAll\<close> is the first status,
  then \<open>&=\<close> the second, then \<open>&=\<close> the third, all \<open>uint8_t\<close>. The values are
  \<open>int32_t\<close>: 32-bit words that \<open>sint\<close> reads as two's complement.
\<close>

definition oldVel :: "lib \<Rightarrow> 32 word" where
  "oldVel L = fst (getODpair L EPOS_OD_PROFILE_VELOCITY)"

definition oldAccel :: "lib \<Rightarrow> 32 word" where
  "oldAccel L = fst (getODpair L EPOS_OD_PROFILE_ACCELERATION)"

definition oldDecel :: "lib \<Rightarrow> 32 word" where
  "oldDecel L = fst (getODpair L EPOS_OD_PROFILE_DECELERATION)"

definition statusAll :: "lib \<Rightarrow> 8 word" where
  "statusAll L =
     (let statusAll = snd (getODpair L EPOS_OD_PROFILE_VELOCITY);
          statusAll = statusAll AND snd (getODpair L EPOS_OD_PROFILE_ACCELERATION);
          statusAll = statusAll AND snd (getODpair L EPOS_OD_PROFILE_DECELERATION)
      in statusAll)"

definition save_profile :: "call list" where
  "save_profile =
     [GetODpair EPOS_OD_PROFILE_VELOCITY,
      GetODpair EPOS_OD_PROFILE_ACCELERATION,
      GetODpair EPOS_OD_PROFILE_DECELERATION]"

text \<open>Lines 253 to 271: the new profile, the synchronous write, the SYNC.\<close>

definition sync_motion :: "lib \<Rightarrow> call list" where
  "sync_motion L =
     [SendRxPDO RxPDO_Profile_Velocity [120],
      SendSDO EPOS_OD_PROFILE_ACCELERATION 60 (Some 1),
      SendSDO EPOS_OD_PROFILE_DECELERATION 60 (Some 1),
      SendSDO EPOS_OD_TARGET_POSITION 4000 (Some 1),
      SetControlWordBits [CW_BITS_NEW_SET_POINT, CW_BITS_ABS_OR_RELATIVE, CW_BITS_HALT]
        [True, True, False],
      SendRxPDO RxPDO_ControlWord_Synchronous
        [uint (setControlWordBits L
           [CW_BITS_NEW_SET_POINT, CW_BITS_ABS_OR_RELATIVE, CW_BITS_HALT]
           [True, True, False])],
      Log ESP_LOGI ''SYNC Motion'' ''Move configured, waiting for Sync Object...'',
      Wait 5000,
      BroadcastSync,
      Log ESP_LOGI ''SYNC Motion'' ''Sent Sync, Motion Started'',
      Wait 50,
      SetControlWordBits [CW_BITS_NEW_SET_POINT] [False],
      SendSDO EPOS_OD_CONTROLWORD
        (uint (setControlWordBits L [CW_BITS_NEW_SET_POINT] [False])) None]"

text \<open>
  Lines 274 to 282: the poll for the target-reached bit. The condition is evaluated at the
  head of every iteration; \<open>k\<close> counts the evaluations made so far.
\<close>

definition poll_body :: "call list" where
  "poll_body =
     [GetODvalue EPOS_OD_VELOCITY_ACTUAL_VALUES_VELOCITY_ACTUAL_VALUE_AVERAGED,
      GetODvalue EPOS_OD_POSITION_ACTUAL_VALUE,
      Wait 100,
      LocalOD EPOS_OD_VELOCITY_ACTUAL_VALUE,
      LocalOD EPOS_OD_POSITION_ACTUAL_VALUE,
      Log ESP_LOGI ''SYNC Motion'' ''speed: %ld, position: %ld'']"

fun poll_loop :: "lib \<Rightarrow> nat \<Rightarrow> nat \<Rightarrow> run" where
  "poll_loop L k 0 = ([], Spinning Poll_Loop)"
| "poll_loop L k (Suc n) =
     (if getBitFromStatusWord L SW_BITS_TARGET_REACHED k \<noteq> 1
      then then_do (straight (GetBitFromStatusWord SW_BITS_TARGET_REACHED # poll_body))
             (poll_loop L (Suc k) n)
      else straight [GetBitFromStatusWord SW_BITS_TARGET_REACHED])"

text \<open>Lines 284 to 297: the old profile is written back, or a warning is logged.\<close>

definition restore_profile :: "lib \<Rightarrow> call list" where
  "restore_profile L =
     Log ESP_LOGI ''SYNC Motion'' ''Motion Complete!'' #
     (if statusAll L AND 1 \<noteq> 0
      then [Log ESP_LOGI ''SYNC Motion'' ''Returning to Old Profile'',
            SendRxPDO RxPDO_Profile_Velocity [sint (oldVel L)],
            SendSDO EPOS_OD_PROFILE_ACCELERATION (sint (oldAccel L)) (Some 1),
            SendSDO EPOS_OD_PROFILE_DECELERATION (sint (oldDecel L)) (Some 1)]
      else [Log ESP_LOGW ''SYNC Motion'' ''Old Profile invalid''])"

text \<open>Lines 302 to 308 and 315 to 318: the two \<open>while (true)\<close> loops.\<close>

fun demo_loop :: "nat \<Rightarrow> run" where
  "demo_loop 0 = ([], Spinning Demo_Loop)"
| "demo_loop (Suc n) =
     then_do
       (straight
          [Wait 3000,
           Log ESP_LOGI ''DEMO LOOP'' ''Moving...'',
           MoveToTargetPosition 500 True True,
           Log ESP_LOGI ''DEMO LOOP'' ''Moved.''])
       (demo_loop n)"

fun failure_loop :: "nat \<Rightarrow> run" where
  "failure_loop 0 = ([], Spinning Failure_Loop)"
| "failure_loop (Suc n) = then_do (straight [Wait 1000]) (failure_loop n)"

text \<open>
  The three nested tests of lines 180, 186 and 195, with what each guards; a test that
  fails falls through to line 313.
\<close>

definition operational :: "lib \<Rightarrow> nat \<Rightarrow> run" where
  "operational L n =
     then_do
       (straight
          ([Log ESP_LOGI ''NMT'' ''Set to Operational'', Wait 1000]
           @ profile_modes @ save_profile @ sync_motion L))
       (then_do (poll_loop L 0 n)
          (then_do (straight (restore_profile L)) (demo_loop n)))"

definition configured :: "lib \<Rightarrow> nat \<Rightarrow> run" where
  "configured L n =
     then_do
       (straight
          [Log ESP_LOGI ''app_main'' ''EPOS PDO CONFIGURATION FINISHED'',
           SetHeartbeatConsumer masterNodeID 1500,
           Wait 1000,
           ChangeNMTState NMT_COMMAND_GOTO_OPERATIONAL])
       (if changeNMTState L NMT_COMMAND_GOTO_OPERATIONAL = ERROR_CODE_NOERROR L
        then operational L n
        else straight [])"

definition pre_operational :: "lib \<Rightarrow> nat \<Rightarrow> run" where
  "pre_operational L n =
     then_do
       (straight ([Log ESP_LOGI ''NMT'' ''Set to Pre-Operational'', Wait 1000]
                  @ fst (PDOHelper L)))
       (if snd (PDOHelper L) = ERROR_CODE_NOERROR L
        then configured L n
        else straight [])"

definition app_main :: "lib \<Rightarrow> nat \<Rightarrow> run" where
  "app_main L n =
     then_do (straight (startup @ [ChangeNMTState NMT_COMMAND_GOTO_PRE_OPERATIONAL]))
       (then_do
          (if changeNMTState L NMT_COMMAND_GOTO_PRE_OPERATIONAL = ERROR_CODE_NOERROR L
           then pre_operational L n
           else straight [])
          (then_do (straight [Log ESP_LOGE ''DEMO'' ''Setup Failed!''])
             (failure_loop n)))"

text \<open>The setup sequence succeeds when all three tests do.\<close>

definition setup_ok :: "lib \<Rightarrow> bool" where
  "setup_ok L =
     (changeNMTState L NMT_COMMAND_GOTO_PRE_OPERATIONAL = ERROR_CODE_NOERROR L
      \<and> snd (PDOHelper L) = ERROR_CODE_NOERROR L
      \<and> changeNMTState L NMT_COMMAND_GOTO_OPERATIONAL = ERROR_CODE_NOERROR L)"

text \<open>
  The calls of the setup sequence, lines 167 to 195, as a list: the start-up, the request
  for Pre-Operational and what each passed test lets through.
\<close>

definition setup_calls :: "lib \<Rightarrow> call list" where
  "setup_calls L =
     startup @ [ChangeNMTState NMT_COMMAND_GOTO_PRE_OPERATIONAL]
     @ (if changeNMTState L NMT_COMMAND_GOTO_PRE_OPERATIONAL = ERROR_CODE_NOERROR L
        then [Log ESP_LOGI ''NMT'' ''Set to Pre-Operational'', Wait 1000] @ PDOHelper_calls
          @ (if snd (PDOHelper L) = ERROR_CODE_NOERROR L
             then [Log ESP_LOGI ''app_main'' ''EPOS PDO CONFIGURATION FINISHED'',
                   SetHeartbeatConsumer masterNodeID 1500,
                   Wait 1000,
                   ChangeNMTState NMT_COMMAND_GOTO_OPERATIONAL]
             else [])
        else [])"

text \<open>One iteration of the demo loop of lines 302 to 308.\<close>

definition demo_body :: "call list" where
  "demo_body =
     [Wait 3000,
      Log ESP_LOGI ''DEMO LOOP'' ''Moving...'',
      MoveToTargetPosition 500 True True,
      Log ESP_LOGI ''DEMO LOOP'' ''Moved.'']"

subsection \<open>Vocabulary of the properties\<close>

text \<open>
  The motion commands: \<open>enable\<close>, \<open>moveToTargetVelocity\<close>, \<open>moveToTargetPosition\<close>,
  \<open>sendRxPDO\<close> and \<open>broadcastSync\<close>.
\<close>

fun is_motion_command :: "call \<Rightarrow> bool" where
  "is_motion_command Enable = True"
| "is_motion_command (MoveToTargetVelocity v) = True"
| "is_motion_command (MoveToTargetPosition p absolute immediately) = True"
| "is_motion_command (SendRxPDO name vals) = True"
| "is_motion_command BroadcastSync = True"
| "is_motion_command c = False"

text \<open>All three \<open>configPDO\<close> calls of \<open>PDOHelper\<close> return \<open>ERROR_CODE_NOERROR\<close>.\<close>

definition configPDO_ok :: "lib \<Rightarrow> bool" where
  "configPDO_ok L =
     (configPDO L RxPDO_ControlWord_Synchronous
        (RXPDO1, PDO_TRANSMISSION_MODE_SYNC, [EPOS_OD_CONTROLWORD], []) = ERROR_CODE_NOERROR L
      \<and> configPDO L RxPDO_Profile_Velocity
        (RXPDO2, PDO_TRANSMISSION_MODE_ASYNC, [EPOS_OD_PROFILE_VELOCITY], [])
          = ERROR_CODE_NOERROR L
      \<and> configPDO L TxPDO_StatusWord_Position
        (TXPDO1, PDO_TRANSMISSION_MODE_ASYNC,
         [EPOS_OD_STATUSWORD, EPOS_OD_POSITION_ACTUAL_VALUE], []) = ERROR_CODE_NOERROR L)"

text \<open>
  A write on the synchronous channel, and the steps of the SYNC sequence: such a write,
  the SYNC itself, and the log line that says the motion has started.
\<close>

fun is_sync_channel_write :: "call \<Rightarrow> bool" where
  "is_sync_channel_write (SendRxPDO name vals) = (name = RxPDO_ControlWord_Synchronous)"
| "is_sync_channel_write c = False"

definition sync_step :: "call \<Rightarrow> bool" where
  "sync_step c =
     (is_sync_channel_write c \<or> c = BroadcastSync
      \<or> c = Log ESP_LOGI ''SYNC Motion'' ''Sent Sync, Motion Started'')"

text \<open>A read of the target-reached bit.\<close>

definition is_target_poll :: "call \<Rightarrow> bool" where
  "is_target_poll c = (c = GetBitFromStatusWord SW_BITS_TARGET_REACHED)"

text \<open>
  A status returned by \<open>getODpair\<close> is a valid flag when its bit 0 is set, and the writes
  that set the profile are those of the profile velocity, acceleration and deceleration.
\<close>

definition valid_flag :: "8 word \<Rightarrow> bool" where
  "valid_flag s = bit s 0"

fun is_profile_write :: "call \<Rightarrow> bool" where
  "is_profile_write (SendRxPDO name vals) = (name = RxPDO_Profile_Velocity)"
| "is_profile_write (SendSDO object v sz) =
     (object = EPOS_OD_PROFILE_ACCELERATION \<or> object = EPOS_OD_PROFILE_DECELERATION)"
| "is_profile_write c = False"

text \<open>The heartbeat-consumer watches that a run configures: node and timeout in ms.\<close>

fun consumer_timeouts :: "call list \<Rightarrow> (nat \<times> nat) list" where
  "consumer_timeouts [] = []"
| "consumer_timeouts (SetHeartbeatConsumer node ms # cs) = (node, ms) # consumer_timeouts cs"
| "consumer_timeouts (c # cs) = consumer_timeouts cs"

text \<open>The heartbeat sends and the delays of a run.\<close>

fun is_heartbeat_send :: "call \<Rightarrow> bool" where
  "is_heartbeat_send (SendHeartbeat node) = True"
| "is_heartbeat_send c = False"

fun is_delay_until :: "call \<Rightarrow> bool" where
  "is_delay_until (XTaskDelayUntil previous increment) = True"
| "is_delay_until c = False"

subsection \<open>Concrete answers\<close>

text \<open>
  A node on which everything succeeds: no error is 0, the tick rate is 1000 Hz, every read
  of the old profile is valid, and the target is reached at the third poll. The others
  differ from it in one answer each.
\<close>

definition demo_lib :: lib where
  "demo_lib =
     \<lparr>ERROR_CODE_NOERROR = 0,
      MASTER_ERROR_CODE_GENERIC_ERROR = 1,
      configTICK_RATE_HZ = 1000,
      xTaskGetTickCount = 0,
      changeNMTState = (\<lambda>command. 0),
      configPDO = (\<lambda>name configuration. 0),
      sendSDO = (\<lambda>object v. 0),
      getODpair = (\<lambda>object. (500, 1)),
      setControlWordBits = (\<lambda>bits vals. 63),
      getBitFromStatusWord = (\<lambda>b k. if k < 2 then 0 else 1),
      sendHeartbeat = (\<lambda>node k. 0),
      twai_receive = (\<lambda>k. None),
      receiver = (\<lambda>message. 0),
      parseError = (\<lambda>error_code. 0)\<rparr>"

definition inhibit_fails_lib :: lib where
  "inhibit_fails_lib = demo_lib\<lparr>sendSDO := (\<lambda>object v. 1)\<rparr>"

definition nmt_pre_op_fails_lib :: lib where
  "nmt_pre_op_fails_lib =
     demo_lib\<lparr>changeNMTState :=
       (\<lambda>command. if command = NMT_COMMAND_GOTO_PRE_OPERATIONAL then 1 else 0)\<rparr>"

definition pdo_fails_lib :: lib where
  "pdo_fails_lib =
     demo_lib\<lparr>configPDO := (\<lambda>name configuration. if name = ''PV'' then 4 else 0)\<rparr>"

definition nmt_op_fails_lib :: lib where
  "nmt_op_fails_lib =
     demo_lib\<lparr>changeNMTState :=
       (\<lambda>command. if command = NMT_COMMAND_GOTO_OPERATIONAL then 1 else 0)\<rparr>"

definition stuck_lib :: lib where
  "stuck_lib = demo_lib\<lparr>getBitFromStatusWord := (\<lambda>b k. 0)\<rparr>"

definition invalid_profile_lib :: lib where
  "invalid_profile_lib =
     demo_lib\<lparr>getODpair :=
       (\<lambda>object. if object = EPOS_OD_PROFILE_ACCELERATION then (7, 0) else (500, 1))\<rparr>"

definition heartbeat_fails_lib :: lib where
  "heartbeat_fails_lib = demo_lib\<lparr>sendHeartbeat := (\<lambda>node k. if k = 1 then 1 else 0)\<rparr>"

section \<open>Runs and their composition\<close>

lemma calls_pair [simp]: "calls (cs, s) = cs"
  by (simp add: calls_def)

lemma outcome_pair [simp]: "outcome (cs, s) = s"
  by (simp add: outcome_def)

lemma calls_straight [simp]: "calls (straight cs) = cs"
  by (simp add: calls_def straight_def)

lemma outcome_straight [simp]: "outcome (straight cs) = Returned"
  by (simp add: outcome_def straight_def)

lemma calls_then_do:
  "calls (then_do r k) = (if outcome r = Returned then calls r @ calls k else calls r)"
  by (simp add: calls_def outcome_def then_do_def split: status.splits)

lemma outcome_then_do:
  "outcome (then_do r k) = (if outcome r = Returned then outcome k else outcome r)"
  by (simp add: outcome_def then_do_def split: status.splits)

lemma calls_straight_then [simp]: "calls (then_do (straight cs) k) = cs @ calls k"
  by (simp add: calls_then_do)

lemma outcome_straight_then [simp]: "outcome (then_do (straight cs) k) = outcome k"
  by (simp add: outcome_then_do)

section \<open>The loops\<close>

lemma outcome_failure_loop [simp]: "outcome (failure_loop n) = Spinning Failure_Loop"
  by (induction n) simp_all

lemma calls_failure_loop [simp]: "calls (failure_loop n) = replicate n (Wait 1000)"
  by (induction n) simp_all

lemma outcome_demo_loop [simp]: "outcome (demo_loop n) = Spinning Demo_Loop"
  by (induction n) simp_all

lemma calls_demo_loop: "calls (demo_loop n) = concat (replicate n demo_body)"
  by (induction n) (simp_all add: demo_body_def)

lemma outcome_poll_loop_cases:
  "outcome (poll_loop L k n) = Returned \<or> outcome (poll_loop L k n) = Spinning Poll_Loop"
  by (induction n arbitrary: k) simp_all

text \<open>The poll returns within \<open>n\<close> iterations exactly when one of the next \<open>n\<close> reads is 1.\<close>

lemma outcome_poll_loop_iff:
  "outcome (poll_loop L k n) = Returned \<longleftrightarrow>
     (\<exists>j<n. getBitFromStatusWord L SW_BITS_TARGET_REACHED (k + j) = 1)"
proof (induction n arbitrary: k)
  case 0
  then show ?case by simp
next
  case (Suc n)
  show ?case
  proof (cases "getBitFromStatusWord L SW_BITS_TARGET_REACHED k = 1")
    case True
    then have "getBitFromStatusWord L SW_BITS_TARGET_REACHED (k + 0) = 1" by simp
    then show ?thesis using True by (auto intro!: exI[of _ 0])
  next
    case False
    have "(\<exists>j<Suc n. getBitFromStatusWord L SW_BITS_TARGET_REACHED (k + j) = 1)
          \<longleftrightarrow> (\<exists>j<n. getBitFromStatusWord L SW_BITS_TARGET_REACHED (Suc k + j) = 1)"
      using False by (auto simp: less_Suc_eq_0_disj)
    then show ?thesis using False Suc.IH[of "Suc k"] by simp
  qed
qed

section \<open>app_main as a whole\<close>

lemma outcome_operational:
  "outcome (operational L n) =
     (if outcome (poll_loop L 0 n) = Returned then Spinning Demo_Loop else Spinning Poll_Loop)"
  using outcome_poll_loop_cases [of L 0 n]
  by (auto simp: operational_def outcome_then_do)

lemma calls_operational:
  "calls (operational L n) =
     [Log ESP_LOGI ''NMT'' ''Set to Operational'', Wait 1000]
     @ profile_modes @ save_profile @ sync_motion L @ calls (poll_loop L 0 n)
     @ (if outcome (poll_loop L 0 n) = Returned
        then restore_profile L @ calls (demo_loop n) else [])"
  by (simp add: operational_def calls_then_do)

lemma outcome_app_main:
  "outcome (app_main L n) =
     (if setup_ok L
      then (if outcome (poll_loop L 0 n) = Returned then Spinning Demo_Loop
            else Spinning Poll_Loop)
      else Spinning Failure_Loop)"
  by (simp add: app_main_def pre_operational_def configured_def setup_ok_def
      outcome_then_do outcome_operational)

lemma calls_app_main:
  "calls (app_main L n) =
     setup_calls L
     @ (if setup_ok L then calls (operational L n)
        else Log ESP_LOGE ''DEMO'' ''Setup Failed!'' # replicate n (Wait 1000))"
  by (simp add: app_main_def pre_operational_def configured_def setup_ok_def setup_calls_def
      calls_then_do outcome_then_do outcome_operational PDOHelper_def)

lemma no_motion_setup_calls: "filter is_motion_command (setup_calls L) = []"
  by (simp add: setup_calls_def startup_def PDOHelper_calls_def)

lemma no_motion_heartbeat_loop:
  "filter is_motion_command (calls (heartbeat_loop L t k n)) = []"
  by (induction n arbitrary: t k) (simp_all add: heartbeat_round_def)

lemma no_motion_receiver_loop:
  "filter is_motion_command (calls (receiver_loop L k n)) = []"
  by (induction n arbitrary: k) (simp_all add: receive_once_def Let_def split: option.splits)

lemma PDOHelper_ret_zero_iff:
  "ERROR_CODE_NOERROR L = 0 \<Longrightarrow> PDOHelper_ret L = 0 \<longleftrightarrow> configPDO_ok L"
  by (simp add: PDOHelper_ret_def configPDO_ok_def Let_def or_eq_0_iff conj_assoc)

lemma setup_ok_demo_variants:
  "\<not> setup_ok nmt_pre_op_fails_lib" "\<not> setup_ok pdo_fails_lib" "\<not> setup_ok nmt_op_fails_lib"
  by (simp_all add: setup_ok_def nmt_pre_op_fails_lib_def pdo_fails_lib_def
      nmt_op_fails_lib_def demo_lib_def PDOHelper_def PDOHelper_ret_def
      RxPDO_ControlWord_Synchronous_def RxPDO_Profile_Velocity_def
      TxPDO_StatusWord_Position_def)

section \<open>Two runs, evaluated\<close>

text \<open>
  Two iterations of the heartbeat task when the second send fails, and \<open>app_main\<close> when
  the node does not confirm Pre-Operational.
\<close>

lemma heartbeat_failed_send_example:
  "calls (heartbeatTask heartbeat_fails_lib 2) =
     [Log ESP_LOGI ''heartbeatTask'' ''Starting Task'',
      XTaskGetTickCount,
      SendHeartbeat 127,
      XTaskDelayUntil 0 1000,
      SendHeartbeat 127,
      Log ESP_LOGI ''heartbeatTask'' ''HEARTBEAT_SEND_ERROR'',
      XTaskDelayUntil 1000 1000]"
  by (simp add: heartbeatTask_def numeral_2_eq_2 heartbeat_round_def sendFrequency_def
      heartbeat_fails_lib_def demo_lib_def masterNodeID_def)

lemma failed_setup_example:
  "app_main nmt_pre_op_fails_lib 2 =
     ([Esp_log_level_set ''*'',
       TWAISetup 500,
       XTaskCreate ''receiverTask'' 4096 4,
       XTaskCreate ''heartbeat'' 4096 4,
       Disable,
       ClearError,
       ChangeNMTState NMT_COMMAND_GOTO_PRE_OPERATIONAL,
       Log ESP_LOGE ''DEMO'' ''Setup Failed!'',
       Wait 1000,
       Wait 1000],
      Spinning Failure_Loop)"
  by (simp add: app_main_def numeral_2_eq_2 startup_def nmt_pre_op_fails_lib_def demo_lib_def
      then_do_def straight_def)

section \<open>Properties of the program\<close>

text \<open>
  C1. When a step of the setup sequence fails (the request for Pre-Operational, PDOHelper
  or the request for Operational does not return \<open>ERROR_CODE_NOERROR\<close>), a run of
  \<open>app_main\<close> of any length issues no motion command at all (no \<open>enable\<close>,
  \<open>moveToTargetVelocity\<close>, \<open>moveToTargetPosition\<close>, \<open>sendRxPDO\<close>, \<open>broadcastSync\<close>),
  it is inside the failure loop, and from the "Setup Failed!" log on it only waits. The
  two tasks that run beside it issue no motion command either.
\<close>

theorem setup_failure_is_safe:
  assumes "\<not> setup_ok L"
  shows "filter is_motion_command (calls (app_main L n)) = []
       \<and> outcome (app_main L n) = Spinning Failure_Loop
       \<and> dropWhile (\<lambda>c. c \<noteq> Log ESP_LOGE ''DEMO'' ''Setup Failed!'') (calls (app_main L n))
           = Log ESP_LOGE ''DEMO'' ''Setup Failed!'' # replicate n (Wait 1000)
       \<and> filter is_motion_command (calls (heartbeatTask L m)) = []
       \<and> filter is_motion_command (calls (receiverTask L m)) = []"
proof -
  have a: "filter is_motion_command (calls (app_main L n)) = []"
    using assms by (simp add: calls_app_main no_motion_setup_calls)
  have b: "outcome (app_main L n) = Spinning Failure_Loop"
    using assms by (simp add: outcome_app_main)
  have "\<forall>c \<in> set (setup_calls L). c \<noteq> Log ESP_LOGE ''DEMO'' ''Setup Failed!''"
    by (auto simp: setup_calls_def startup_def PDOHelper_calls_def)
  then have c:
    "dropWhile (\<lambda>c. c \<noteq> Log ESP_LOGE ''DEMO'' ''Setup Failed!'') (calls (app_main L n))
       = Log ESP_LOGE ''DEMO'' ''Setup Failed!'' # replicate n (Wait 1000)"
    using assms by (simp add: calls_app_main dropWhile_append2)
  have d: "filter is_motion_command (calls (heartbeatTask L m)) = []"
    by (simp add: heartbeatTask_def no_motion_heartbeat_loop)
  have e: "filter is_motion_command (calls (receiverTask L m)) = []"
    by (simp add: receiverTask_def no_motion_receiver_loop)
  show ?thesis using a b c d e by simp
qed

theorem setup_failure_is_safe_witness:
  "filter is_motion_command (calls (app_main nmt_pre_op_fails_lib 3)) = []
   \<and> outcome (app_main pdo_fails_lib 3) = Spinning Failure_Loop
   \<and> filter is_motion_command (calls (app_main nmt_op_fails_lib 3)) = []"
  using setup_failure_is_safe [OF setup_ok_demo_variants(1), of 3]
    setup_failure_is_safe [OF setup_ok_demo_variants(2), of 3]
    setup_failure_is_safe [OF setup_ok_demo_variants(3), of 3]
  by simp

text \<open>
  C2, as stated: every non-zero value of \<open>parseError\<close> passes exactly one of the three
  tests of \<open>receiverTask\<close>. It fails at 3 (master bit and SDO bit together), which passes
  none, so that the chain enters no branch.
\<close>

theorem three_matches_no_test:
  "(3::nat) \<noteq> 0 \<and> matching_tests 3 = 0 \<and> error_branch 3 = No_Branch"
  by (simp add: matching_tests_def error_branch_def is_master_error_def is_sdo_error_def
      is_epos_error_def)

text \<open>
  C2, amended. No value of \<open>parseError\<close> passes more than one of the three tests, and the
  chain enters the branch of the test that is passed. A value passes one exactly when it
  is 1, or 2, or has one of the bits 2 to 6 set; every other value enters no branch.
\<close>

theorem error_tests_exclusive:
  "matching_tests p \<le> 1
   \<and> (matching_tests p = 1) = (p = 1 \<or> p = 2 \<or> p AND 124 \<noteq> 0)
   \<and> (error_branch p = Master_Error) = is_master_error p
   \<and> (error_branch p = SDO_Error) = is_sdo_error p
   \<and> (error_branch p = EPOS_Error) = is_epos_error p
   \<and> (error_branch p = No_Branch) = (matching_tests p = 0)"
  by (auto simp: matching_tests_def error_branch_def is_master_error_def is_sdo_error_def
      is_epos_error_def)

text \<open>
  C3, as stated: \<open>PDOHelper\<close> returns \<open>ERROR_CODE_NOERROR\<close> only if every write it issues
  succeeds, the \<open>sendSDO\<close> of the inhibit time included. It fails on a node where the three
  \<open>configPDO\<close> calls succeed and that \<open>sendSDO\<close> does not.
\<close>

theorem PDOHelper_ignores_inhibit_write:
  "snd (PDOHelper inhibit_fails_lib) = ERROR_CODE_NOERROR inhibit_fails_lib
   \<and> sendSDO inhibit_fails_lib EPOS_OD_TRANSMIT_PDO_1_PARAMETER_INHIBIT_TIME_TXPDO_1 100
       \<noteq> ERROR_CODE_NOERROR inhibit_fails_lib"
  by (simp add: PDOHelper_def PDOHelper_ret_def inhibit_fails_lib_def demo_lib_def)

text \<open>
  C3, amended. With \<open>ERROR_CODE_NOERROR\<close> being 0 and \<open>MASTER_ERROR_CODE_GENERIC_ERROR\<close>
  not, \<open>PDOHelper\<close> returns \<open>ERROR_CODE_NOERROR\<close> exactly when all three \<open>configPDO\<close>
  calls do, and \<open>MASTER_ERROR_CODE_GENERIC_ERROR\<close> otherwise; what the \<open>sendSDO\<close> of the
  inhibit time returns does not change the result.
\<close>

theorem PDOHelper_result:
  assumes "ERROR_CODE_NOERROR L = 0" and "MASTER_ERROR_CODE_GENERIC_ERROR L \<noteq> 0"
  shows "(snd (PDOHelper L) = ERROR_CODE_NOERROR L) = configPDO_ok L
       \<and> snd (PDOHelper L) = (if configPDO_ok L then ERROR_CODE_NOERROR L
                               else MASTER_ERROR_CODE_GENERIC_ERROR L)
       \<and> snd (PDOHelper (L\<lparr>sendSDO := f\<rparr>)) = snd (PDOHelper L)"
proof -
  have ret: "PDOHelper_ret L = 0 \<longleftrightarrow> configPDO_ok L"
    using assms(1) by (rule PDOHelper_ret_zero_iff)
  have same: "PDOHelper_ret (L\<lparr>sendSDO := f\<rparr>) = PDOHelper_ret L"
    by (simp add: PDOHelper_ret_def)
  show ?thesis
    using assms ret same by (auto simp: PDOHelper_def)
qed

theorem PDOHelper_result_witness:
  "snd (PDOHelper demo_lib) = 0 \<and> snd (PDOHelper pdo_fails_lib) = 1"
  using PDOHelper_result [of demo_lib] PDOHelper_result [of pdo_fails_lib]
  by (simp add: pdo_fails_lib_def demo_lib_def configPDO_ok_def
      RxPDO_ControlWord_Synchronous_def RxPDO_Profile_Velocity_def
      TxPDO_StatusWord_Position_def)

text \<open>
  C5. Every run of \<open>PDOHelper\<close> starts with \<open>resetNumPDOMapped\<close>, then waits 100 ms, and
  only then writes configuration: the calls before the first configuration write are
  exactly the reset and the wait, and the rest of the run is the four writes (three
  \<open>configPDO\<close>, then the inhibit time).
\<close>

theorem PDOHelper_reset_then_settle:
  "fst (PDOHelper L) =
     [ResetNumPDOMapped, Wait 100] @ filter is_config_write (fst (PDOHelper L))
   \<and> takeWhile (\<lambda>c. \<not> is_config_write c) (fst (PDOHelper L)) = [ResetNumPDOMapped, Wait 100]
   \<and> filter is_config_write (fst (PDOHelper L)) =
       [ConfigPDO RxPDO_ControlWord_Synchronous
          (RXPDO1, PDO_TRANSMISSION_MODE_SYNC, [EPOS_OD_CONTROLWORD], []),
        ConfigPDO RxPDO_Profile_Velocity
          (RXPDO2, PDO_TRANSMISSION_MODE_ASYNC, [EPOS_OD_PROFILE_VELOCITY], []),
        ConfigPDO TxPDO_StatusWord_Position
          (TXPDO1, PDO_TRANSMISSION_MODE_ASYNC,
           [EPOS_OD_STATUSWORD, EPOS_OD_POSITION_ACTUAL_VALUE], []),
        SendSDO EPOS_OD_TRANSMIT_PDO_1_PARAMETER_INHIBIT_TIME_TXPDO_1 100 (Some 1)]"
  by (simp add: PDOHelper_def PDOHelper_calls_def)

lemma set_calls_poll_loop:
  "set (calls (poll_loop L k n))
     \<subseteq> insert (GetBitFromStatusWord SW_BITS_TARGET_REACHED) (set poll_body)"
  by (induction n arbitrary: k) auto

lemma set_calls_demo_loop: "set (calls (demo_loop n)) \<subseteq> set demo_body"
  by (induction n) (auto simp: demo_body_def)

lemma filter_poll_loop_empty:
  assumes "\<not> P (GetBitFromStatusWord SW_BITS_TARGET_REACHED)" and "filter P poll_body = []"
  shows "filter P (calls (poll_loop L k n)) = []"
  using assms set_calls_poll_loop [of L k n] by (auto simp: filter_empty_conv)

lemma filter_demo_loop_empty:
  assumes "filter P demo_body = []"
  shows "filter P (calls (demo_loop n)) = []"
  using assms set_calls_demo_loop [of n] by (auto simp: filter_empty_conv)

lemma filter_takeWhile_empty: "filter Q xs = [] \<Longrightarrow> filter Q (takeWhile P xs) = []"
  by (auto simp: filter_empty_conv dest: set_takeWhileD)

lemma sync_step_setup_calls: "filter sync_step (setup_calls L) = []"
  by (simp add: setup_calls_def startup_def PDOHelper_calls_def sync_step_def)

lemma sync_step_operational:
  "filter sync_step (calls (operational L n)) =
     [SendRxPDO RxPDO_ControlWord_Synchronous
        [uint (setControlWordBits L
           [CW_BITS_NEW_SET_POINT, CW_BITS_ABS_OR_RELATIVE, CW_BITS_HALT]
           [True, True, False])],
      BroadcastSync,
      Log ESP_LOGI ''SYNC Motion'' ''Sent Sync, Motion Started'']"
proof -
  have p: "filter sync_step (calls (poll_loop L 0 n)) = []"
    by (rule filter_poll_loop_empty) (simp_all add: sync_step_def poll_body_def)
  have d: "filter sync_step (calls (demo_loop n)) = []"
    by (rule filter_demo_loop_empty) (simp add: sync_step_def demo_body_def)
  have r: "filter sync_step (restore_profile L) = []"
    by (simp add: restore_profile_def sync_step_def RxPDO_Profile_Velocity_def
        RxPDO_ControlWord_Synchronous_def)
  have m: "filter sync_step (profile_modes @ save_profile) = []"
    by (simp add: profile_modes_def save_profile_def sync_step_def)
  have s: "filter sync_step (sync_motion L) =
     [SendRxPDO RxPDO_ControlWord_Synchronous
        [uint (setControlWordBits L
           [CW_BITS_NEW_SET_POINT, CW_BITS_ABS_OR_RELATIVE, CW_BITS_HALT]
           [True, True, False])],
      BroadcastSync,
      Log ESP_LOGI ''SYNC Motion'' ''Sent Sync, Motion Started'']"
    by (simp add: sync_motion_def sync_step_def RxPDO_Profile_Velocity_def
        RxPDO_ControlWord_Synchronous_def)
  show ?thesis
    using p d r m s by (simp add: calls_operational sync_step_def)
qed

lemma no_poll_before_sync:
  "filter is_target_poll (takeWhile (\<lambda>c. c \<noteq> BroadcastSync) (calls (app_main L n))) = []"
proof (cases "setup_ok L")
  case False
  have "filter is_target_poll (calls (app_main L n)) = []"
    using False
    by (simp add: calls_app_main setup_calls_def startup_def PDOHelper_calls_def
        is_target_poll_def)
  then show ?thesis by (rule filter_takeWhile_empty)
next
  case True
  have pre: "\<forall>c \<in> set (setup_calls L). c \<noteq> BroadcastSync"
    by (auto simp: setup_calls_def startup_def PDOHelper_calls_def)
  have "takeWhile (\<lambda>c. c \<noteq> BroadcastSync) (calls (app_main L n))
        = setup_calls L @ takeWhile (\<lambda>c. c \<noteq> BroadcastSync) (calls (operational L n))"
    using True pre by (simp add: calls_app_main takeWhile_append2)
  moreover have "filter is_target_poll (setup_calls L) = []"
    by (simp add: setup_calls_def startup_def PDOHelper_calls_def is_target_poll_def)
  moreover have "filter is_target_poll
       (takeWhile (\<lambda>c. c \<noteq> BroadcastSync) (calls (operational L n))) = []"
    by (simp add: calls_operational profile_modes_def save_profile_def sync_motion_def
        is_target_poll_def)
  ultimately show ?thesis by simp
qed

text \<open>
  C4. In every run of \<open>app_main\<close> the write on the synchronous channel (the
  \<open>sendRxPDO\<close> on \<open>RxPDO_ControlWord_Synchronous\<close> that carries the control word),
  \<open>broadcastSync\<close> and the log line "Sent Sync, Motion Started" occur once each and in
  this order when the setup succeeds, and not at all when it fails; and no read of the
  target-reached bit comes before \<open>broadcastSync\<close>.
\<close>

theorem sync_write_before_sync:
  "filter sync_step (calls (app_main L n)) =
     (if setup_ok L
      then [SendRxPDO RxPDO_ControlWord_Synchronous
              [uint (setControlWordBits L
                 [CW_BITS_NEW_SET_POINT, CW_BITS_ABS_OR_RELATIVE, CW_BITS_HALT]
                 [True, True, False])],
            BroadcastSync,
            Log ESP_LOGI ''SYNC Motion'' ''Sent Sync, Motion Started'']
      else [])
   \<and> filter is_target_poll
       (takeWhile (\<lambda>c. c \<noteq> BroadcastSync) (calls (app_main L n))) = []"
proof -
  have fail: "filter sync_step (Log ESP_LOGE ''DEMO'' ''Setup Failed!'' # replicate n (Wait 1000)) = []"
    by (simp add: sync_step_def)
  have "filter sync_step (calls (app_main L n)) =
     (if setup_ok L then filter sync_step (calls (operational L n)) else [])"
    using fail by (simp add: calls_app_main sync_step_setup_calls del: filter.simps)
  then show ?thesis
    using no_poll_before_sync [of L n] by (simp add: sync_step_operational)
qed

lemma and_1_neq_0_iff_bit: "(w AND 1 \<noteq> 0) = bit w 0" for w :: "8 word"
  by (simp add: and_one_eq bit_0 mod_2_eq_odd)

lemma statusAll_valid_iff:
  "(statusAll L AND 1 \<noteq> 0) =
     (valid_flag (snd (getODpair L EPOS_OD_PROFILE_VELOCITY))
      \<and> valid_flag (snd (getODpair L EPOS_OD_PROFILE_ACCELERATION))
      \<and> valid_flag (snd (getODpair L EPOS_OD_PROFILE_DECELERATION)))"
  unfolding and_1_neq_0_iff_bit
  by (simp add: statusAll_def valid_flag_def Let_def bit_and_iff)

lemma profile_writes_restore:
  "filter is_profile_write (restore_profile L) =
     (if statusAll L AND 1 \<noteq> 0
      then [SendRxPDO RxPDO_Profile_Velocity [sint (oldVel L)],
            SendSDO EPOS_OD_PROFILE_ACCELERATION (sint (oldAccel L)) (Some 1),
            SendSDO EPOS_OD_PROFILE_DECELERATION (sint (oldDecel L)) (Some 1)]
      else [])"
  by (simp add: restore_profile_def)

lemma before_motion_complete:
  "\<forall>c \<in> set (setup_calls L @ [Log ESP_LOGI ''NMT'' ''Set to Operational'', Wait 1000]
       @ profile_modes @ save_profile @ sync_motion L @ calls (poll_loop L 0 n)).
     c \<noteq> Log ESP_LOGI ''SYNC Motion'' ''Motion Complete!''"
proof -
  have "\<forall>c \<in> set (calls (poll_loop L 0 n)). c \<noteq> Log ESP_LOGI ''SYNC Motion'' ''Motion Complete!''"
    using set_calls_poll_loop [of L 0 n] by (auto simp: poll_body_def)
  moreover have "\<forall>c \<in> set (setup_calls L). c \<noteq> Log ESP_LOGI ''SYNC Motion'' ''Motion Complete!''"
    by (auto simp: setup_calls_def startup_def PDOHelper_calls_def)
  moreover have "\<forall>c \<in> set (profile_modes @ save_profile @ sync_motion L).
      c \<noteq> Log ESP_LOGI ''SYNC Motion'' ''Motion Complete!''"
    by (auto simp: profile_modes_def save_profile_def sync_motion_def)
  ultimately show ?thesis by auto
qed

lemma after_motion_complete:
  assumes "setup_ok L" and "outcome (poll_loop L 0 n) = Returned"
  shows "dropWhile (\<lambda>c. c \<noteq> Log ESP_LOGI ''SYNC Motion'' ''Motion Complete!'')
           (calls (app_main L n)) = restore_profile L @ calls (demo_loop n)"
proof -
  let ?pre = "setup_calls L @ [Log ESP_LOGI ''NMT'' ''Set to Operational'', Wait 1000]
       @ profile_modes @ save_profile @ sync_motion L @ calls (poll_loop L 0 n)"
  have split: "calls (app_main L n) = ?pre @ (restore_profile L @ calls (demo_loop n))"
    using assms by (simp add: calls_app_main calls_operational)
  have "dropWhile (\<lambda>c. c \<noteq> Log ESP_LOGI ''SYNC Motion'' ''Motion Complete!'')
           (?pre @ (restore_profile L @ calls (demo_loop n)))
     = dropWhile (\<lambda>c. c \<noteq> Log ESP_LOGI ''SYNC Motion'' ''Motion Complete!'')
         (restore_profile L @ calls (demo_loop n))"
    by (rule dropWhile_append2) (use before_motion_complete [of L n] in blast)
  also have "\<dots> = restore_profile L @ calls (demo_loop n)"
    by (simp add: restore_profile_def)
  finally show ?thesis by (simp only: split)
qed

text \<open>
  C6. In a run of \<open>app_main\<close> whose setup succeeds and whose poll has seen the
  target-reached bit at 1, the writes of the profile that follow the "Motion Complete!" log
  are the three old values read by \<open>getODpair\<close> (velocity, acceleration, deceleration)
  when each of the three statuses read with them has bit 0 set, and there is none of them
  when any of the three statuses has bit 0 clear.
\<close>

theorem old_profile_restored_iff_valid:
  assumes "setup_ok L" and "k < n"
    and "getBitFromStatusWord L SW_BITS_TARGET_REACHED k = 1"
  shows "filter is_profile_write
           (dropWhile (\<lambda>c. c \<noteq> Log ESP_LOGI ''SYNC Motion'' ''Motion Complete!'')
              (calls (app_main L n)))
         = (if valid_flag (snd (getODpair L EPOS_OD_PROFILE_VELOCITY))
               \<and> valid_flag (snd (getODpair L EPOS_OD_PROFILE_ACCELERATION))
               \<and> valid_flag (snd (getODpair L EPOS_OD_PROFILE_DECELERATION))
            then [SendRxPDO RxPDO_Profile_Velocity
                    [sint (fst (getODpair L EPOS_OD_PROFILE_VELOCITY))],
                  SendSDO EPOS_OD_PROFILE_ACCELERATION
                    (sint (fst (getODpair L EPOS_OD_PROFILE_ACCELERATION))) (Some 1),
                  SendSDO EPOS_OD_PROFILE_DECELERATION
                    (sint (fst (getODpair L EPOS_OD_PROFILE_DECELERATION))) (Some 1)]
            else [])"
proof -
  have "\<exists>j<n. getBitFromStatusWord L SW_BITS_TARGET_REACHED (0 + j) = 1"
    using assms(2,3) by auto
  then have ret: "outcome (poll_loop L 0 n) = Returned"
    by (simp only: outcome_poll_loop_iff)
  have demo: "filter is_profile_write (calls (demo_loop n)) = []"
    by (rule filter_demo_loop_empty) (simp add: demo_body_def)
  show ?thesis
    unfolding after_motion_complete [OF assms(1) ret]
    by (simp add: demo profile_writes_restore statusAll_valid_iff
        oldVel_def oldAccel_def oldDecel_def del: filter.simps)
qed

theorem old_profile_restored_iff_valid_witness:
  "filter is_profile_write
     (dropWhile (\<lambda>c. c \<noteq> Log ESP_LOGI ''SYNC Motion'' ''Motion Complete!'')
        (calls (app_main demo_lib 3)))
     = [SendRxPDO ''PV'' [500],
        SendSDO EPOS_OD_PROFILE_ACCELERATION 500 (Some 1),
        SendSDO EPOS_OD_PROFILE_DECELERATION 500 (Some 1)]
   \<and> filter is_profile_write
     (dropWhile (\<lambda>c. c \<noteq> Log ESP_LOGI ''SYNC Motion'' ''Motion Complete!'')
        (calls (app_main invalid_profile_lib 3))) = []"
proof -
  have ok: "setup_ok demo_lib" "setup_ok invalid_profile_lib"
    by (simp_all add: setup_ok_def invalid_profile_lib_def demo_lib_def PDOHelper_def
        PDOHelper_ret_def)
  have bit: "getBitFromStatusWord demo_lib SW_BITS_TARGET_REACHED 2 = 1"
    "getBitFromStatusWord invalid_profile_lib SW_BITS_TARGET_REACHED 2 = 1"
    by (simp_all add: invalid_profile_lib_def demo_lib_def)
  have lt: "(2::nat) < 3" by simp
  show ?thesis
    using old_profile_restored_iff_valid [OF ok(1) lt bit(1)]
      old_profile_restored_iff_valid [OF ok(2) lt bit(2)]
    by (simp add: invalid_profile_lib_def demo_lib_def valid_flag_def
        RxPDO_Profile_Velocity_def)
qed

lemma poll_loop_stuck:
  assumes "\<forall>k. getBitFromStatusWord L SW_BITS_TARGET_REACHED k \<noteq> 1"
  shows "calls (poll_loop L k n) =
           concat (replicate n (GetBitFromStatusWord SW_BITS_TARGET_REACHED # poll_body))
         \<and> outcome (poll_loop L k n) = Spinning Poll_Loop"
  using assms by (induction n arbitrary: k) simp_all

lemma no_motion_complete_setup_calls:
  "filter (\<lambda>c. c = Log ESP_LOGI ''SYNC Motion'' ''Motion Complete!'') (setup_calls L) = []"
  by (simp add: setup_calls_def startup_def PDOHelper_calls_def)

text \<open>
  C7. The poll for the target-reached bit has no bound of its own: when the bit never
  reads 1, a run of any length \<open>n\<close> makes \<open>n\<close> full iterations of the loop (the read, the
  two \<open>getODvalue\<close> calls, the 100 ms wait, the log) and is still inside it, so that
  \<open>app_main\<close> after a successful setup is still inside it too and never logs
  "Motion Complete!".
\<close>

theorem poll_has_no_bound:
  assumes "\<forall>k. getBitFromStatusWord L SW_BITS_TARGET_REACHED k \<noteq> 1"
  shows "calls (poll_loop L 0 n) =
           concat (replicate n (GetBitFromStatusWord SW_BITS_TARGET_REACHED # poll_body))
       \<and> outcome (poll_loop L 0 n) = Spinning Poll_Loop
       \<and> outcome (app_main L n) =
           (if setup_ok L then Spinning Poll_Loop else Spinning Failure_Loop)
       \<and> filter (\<lambda>c. c = Log ESP_LOGI ''SYNC Motion'' ''Motion Complete!'')
           (calls (app_main L n)) = []"
proof -
  note stuck = poll_loop_stuck [OF assms, of 0 n]
  have out: "outcome (app_main L n) =
           (if setup_ok L then Spinning Poll_Loop else Spinning Failure_Loop)"
    using stuck by (simp add: outcome_app_main)
  have "filter (\<lambda>c. c = Log ESP_LOGI ''SYNC Motion'' ''Motion Complete!'')
          (calls (operational L n)) = []"
    using before_motion_complete [of L n] stuck
    by (auto simp: calls_operational filter_empty_conv)
  then have "filter (\<lambda>c. c = Log ESP_LOGI ''SYNC Motion'' ''Motion Complete!'')
           (calls (app_main L n)) = []"
    by (simp add: calls_app_main no_motion_complete_setup_calls)
  then show ?thesis using stuck out by simp
qed

theorem poll_has_no_bound_witness:
  "outcome (poll_loop stuck_lib 0 4) = Spinning Poll_Loop
   \<and> outcome (app_main stuck_lib 4) = Spinning Poll_Loop"
proof -
  have never: "\<forall>k. getBitFromStatusWord stuck_lib SW_BITS_TARGET_REACHED k \<noteq> 1"
    by (simp add: stuck_lib_def demo_lib_def)
  have ok: "setup_ok stuck_lib"
    by (simp add: setup_ok_def stuck_lib_def demo_lib_def PDOHelper_def PDOHelper_ret_def)
  show ?thesis
    using poll_has_no_bound [OF never, of 4] ok by simp
qed

lemma setup_failed_not_in_operational:
  "Log ESP_LOGE ''DEMO'' ''Setup Failed!'' \<notin> set (calls (operational L n))"
proof -
  have "Log ESP_LOGE ''DEMO'' ''Setup Failed!'' \<notin> set (calls (poll_loop L 0 n))"
    using set_calls_poll_loop [of L 0 n] by (auto simp: poll_body_def)
  moreover have "Log ESP_LOGE ''DEMO'' ''Setup Failed!'' \<notin> set (calls (demo_loop n))"
    using set_calls_demo_loop [of n] by (auto simp: demo_body_def)
  moreover have "Log ESP_LOGE ''DEMO'' ''Setup Failed!''
      \<notin> set (profile_modes @ save_profile @ sync_motion L @ restore_profile L)"
    by (simp add: profile_modes_def save_profile_def sync_motion_def restore_profile_def)
  ultimately show ?thesis by (simp add: calls_operational)
qed

lemma setup_failed_not_in_setup_calls:
  "Log ESP_LOGE ''DEMO'' ''Setup Failed!'' \<notin> set (setup_calls L)"
  by (simp add: setup_calls_def startup_def PDOHelper_calls_def)

text \<open>
  C9, as stated: after a successful setup control ends in the demo loop. It fails on a
  node where the setup succeeds and the target-reached bit never reads 1: a run of any
  length is inside the poll loop.
\<close>

theorem stuck_poll_never_reaches_demo_loop:
  "setup_ok stuck_lib \<and> (\<forall>n. outcome (app_main stuck_lib n) = Spinning Poll_Loop)"
proof -
  have ok: "setup_ok stuck_lib"
    by (simp add: setup_ok_def stuck_lib_def demo_lib_def PDOHelper_def PDOHelper_ret_def)
  have "outcome (poll_loop stuck_lib 0 n) \<noteq> Returned" for n
    by (simp add: outcome_poll_loop_iff stuck_lib_def demo_lib_def)
  then show ?thesis using ok by (simp add: outcome_app_main)
qed

text \<open>
  C9, amended. \<open>app_main\<close> never returns: a run of any length is cut inside a loop. When
  a setup step fails it is the wait loop, and the "Setup Failed!" log is made exactly then.
  When the setup succeeds it is the demo loop if the target-reached bit has read 1 at one
  of the polls, and the poll loop otherwise.
\<close>

theorem app_main_never_returns:
  "outcome (app_main L n) \<noteq> Returned
   \<and> outcome (app_main L n) =
       (if setup_ok L
        then (if \<exists>k<n. getBitFromStatusWord L SW_BITS_TARGET_REACHED k = 1
              then Spinning Demo_Loop else Spinning Poll_Loop)
        else Spinning Failure_Loop)
   \<and> (Log ESP_LOGE ''DEMO'' ''Setup Failed!'' \<in> set (calls (app_main L n)))
       = (\<not> setup_ok L)"
proof -
  have "outcome (poll_loop L 0 n) = Returned
        \<longleftrightarrow> (\<exists>k<n. getBitFromStatusWord L SW_BITS_TARGET_REACHED k = 1)"
    using outcome_poll_loop_iff [of L 0 n] by simp
  then have out: "outcome (app_main L n) =
       (if setup_ok L
        then (if \<exists>k<n. getBitFromStatusWord L SW_BITS_TARGET_REACHED k = 1
              then Spinning Demo_Loop else Spinning Poll_Loop)
        else Spinning Failure_Loop)"
    by (simp add: outcome_app_main)
  have log: "(Log ESP_LOGE ''DEMO'' ''Setup Failed!'' \<in> set (calls (app_main L n)))
       = (\<not> setup_ok L)"
    using setup_failed_not_in_operational [of L n] setup_failed_not_in_setup_calls [of L]
    by (simp add: calls_app_main)
  show ?thesis using out log by simp
qed

lemma consumer_timeouts_append:
  "consumer_timeouts (xs @ ys) = consumer_timeouts xs @ consumer_timeouts ys"
  by (induction xs rule: consumer_timeouts.induct) simp_all

lemma consumer_timeouts_replicate_wait: "consumer_timeouts (replicate n (Wait ms)) = []"
  by (induction n) simp_all

lemma consumer_timeouts_poll_loop: "consumer_timeouts (calls (poll_loop L k n)) = []"
  by (induction n arbitrary: k) (simp_all add: poll_body_def consumer_timeouts_append)

lemma consumer_timeouts_demo_loop: "consumer_timeouts (calls (demo_loop n)) = []"
  by (induction n) (simp_all add: consumer_timeouts_append)

lemma consumer_timeouts_operational: "consumer_timeouts (calls (operational L n)) = []"
  by (simp add: calls_operational consumer_timeouts_append consumer_timeouts_poll_loop
      consumer_timeouts_demo_loop profile_modes_def save_profile_def sync_motion_def
      restore_profile_def)

lemma consumer_timeouts_app_main:
  "consumer_timeouts (calls (app_main L n)) =
     (if changeNMTState L NMT_COMMAND_GOTO_PRE_OPERATIONAL = ERROR_CODE_NOERROR L
         \<and> snd (PDOHelper L) = ERROR_CODE_NOERROR L
      then [(masterNodeID, 1500)] else [])"
  by (simp add: calls_app_main consumer_timeouts_append consumer_timeouts_operational
      consumer_timeouts_replicate_wait setup_calls_def startup_def PDOHelper_calls_def)

lemma outcome_heartbeat_loop: "outcome (heartbeat_loop L t k n) = Spinning Heartbeat_Loop"
  by (induction n arbitrary: t k) simp_all

lemma calls_heartbeat_loop:
  "calls (heartbeat_loop L t k n) =
     concat (map (\<lambda>j. heartbeat_round L (t + of_nat j * sendFrequency L) (k + j)) [0..<n])"
proof (induction n arbitrary: t k)
  case 0
  then show ?case by simp
next
  case (Suc n)
  have "[0..<Suc n] = 0 # map Suc [0..<n]"
    by (simp add: upt_conv_Cons map_Suc_upt del: upt_Suc)
  then show ?case
    by (simp add: Suc.IH comp_def algebra_simps del: upt_Suc)
qed

lemma sends_of_round:
  "filter is_heartbeat_send (heartbeat_round L t j) = [SendHeartbeat masterNodeID]"
  by (simp add: heartbeat_round_def)

lemma delays_of_round:
  "filter is_delay_until (heartbeat_round L t j) = [XTaskDelayUntil t (sendFrequency L)]"
  by (simp add: heartbeat_round_def)

lemma concat_map_single: "concat (map (\<lambda>j. [f j]) xs) = map f xs"
  by (induction xs) simp_all

text \<open>
  C8. A run of \<open>heartbeatTask\<close> of \<open>n\<close> iterations is the start-up log, the read of the
  tick count and \<open>n\<close> rounds. Round \<open>j\<close> is one \<open>sendHeartbeat\<close> for node 127, the log
  "HEARTBEAT_SEND_ERROR" when that send did not return \<open>ERROR_CODE_NOERROR\<close>, and one
  \<open>xTaskDelayUntil\<close> from the tick read at the start plus \<open>j\<close> times
  \<open>configTICK_RATE_HZ\<close>, by \<open>configTICK_RATE_HZ\<close> ticks. So there are exactly \<open>n\<close> sends, all
  for node 127, the delays do not depend on what the sends return, and the task is still
  in its loop after any number of iterations, whatever the sends return.
\<close>

theorem heartbeat_once_per_period:
  "calls (heartbeatTask L n) =
     [Log ESP_LOGI ''heartbeatTask'' ''Starting Task'', XTaskGetTickCount]
     @ concat (map (\<lambda>j. heartbeat_round L
                           (xTaskGetTickCount L + of_nat j * of_nat (configTICK_RATE_HZ L)) j)
                 [0..<n])
   \<and> heartbeat_round L t j =
       SendHeartbeat 127
       # (if sendHeartbeat L 127 j = ERROR_CODE_NOERROR L then []
          else [Log ESP_LOGI ''heartbeatTask'' ''HEARTBEAT_SEND_ERROR''])
       @ [XTaskDelayUntil t (of_nat (configTICK_RATE_HZ L))]
   \<and> filter is_heartbeat_send (calls (heartbeatTask L n)) = replicate n (SendHeartbeat 127)
   \<and> filter is_delay_until (calls (heartbeatTask L n)) =
       map (\<lambda>j. XTaskDelayUntil
                  (xTaskGetTickCount L + of_nat j * of_nat (configTICK_RATE_HZ L))
                  (of_nat (configTICK_RATE_HZ L)))
         [0..<n]
   \<and> outcome (heartbeatTask L n) = Spinning Heartbeat_Loop"
proof -
  have c: "calls (heartbeatTask L n) =
     [Log ESP_LOGI ''heartbeatTask'' ''Starting Task'', XTaskGetTickCount]
     @ concat (map (\<lambda>j. heartbeat_round L
                           (xTaskGetTickCount L + of_nat j * of_nat (configTICK_RATE_HZ L)) j)
                 [0..<n])"
    by (simp add: heartbeatTask_def calls_heartbeat_loop sendFrequency_def)
  have r: "heartbeat_round L t j =
       SendHeartbeat 127
       # (if sendHeartbeat L 127 j = ERROR_CODE_NOERROR L then []
          else [Log ESP_LOGI ''heartbeatTask'' ''HEARTBEAT_SEND_ERROR''])
       @ [XTaskDelayUntil t (of_nat (configTICK_RATE_HZ L))]"
    by (simp add: heartbeat_round_def masterNodeID_def sendFrequency_def)
  have s: "filter is_heartbeat_send (calls (heartbeatTask L n)) = replicate n (SendHeartbeat 127)"
    unfolding c
    by (simp add: filter_concat comp_def sends_of_round concat_map_single masterNodeID_def
        map_replicate_const)
  have d: "filter is_delay_until (calls (heartbeatTask L n)) =
       map (\<lambda>j. XTaskDelayUntil
                  (xTaskGetTickCount L + of_nat j * of_nat (configTICK_RATE_HZ L))
                  (of_nat (configTICK_RATE_HZ L)))
         [0..<n]"
    unfolding c
    by (simp add: filter_concat comp_def delays_of_round concat_map_single sendFrequency_def)
  have out: "outcome (heartbeatTask L n) = Spinning Heartbeat_Loop"
    by (simp add: heartbeatTask_def outcome_heartbeat_loop)
  show ?thesis using c r s d out by simp
qed

lemma delay_increments_append:
  "delay_increments (xs @ ys) = delay_increments xs @ delay_increments ys"
  by (induction xs rule: delay_increments.induct) simp_all

lemma delay_increments_round:
  "delay_increments (heartbeat_round L t j) = [sendFrequency L]"
  by (simp add: heartbeat_round_def)

lemma delay_increments_heartbeat_loop:
  "delay_increments (calls (heartbeat_loop L t k n)) = replicate n (sendFrequency L)"
  by (induction n arbitrary: t k)
    (simp_all add: delay_increments_append delay_increments_round)

lemma heartbeat_periods_heartbeatTask:
  assumes "0 < configTICK_RATE_HZ L" and "configTICK_RATE_HZ L < 2 ^ 32"
  shows "heartbeat_periods_ms L (calls (heartbeatTask L m)) = replicate m 1000"
proof -
  have "unat (sendFrequency L) = configTICK_RATE_HZ L"
    using assms(2) by (simp add: sendFrequency_def unat_of_nat)
  then have "ticks_to_ms L (unat (sendFrequency L)) = 1000"
    using assms(1) by (simp add: ticks_to_ms_def)
  then show ?thesis
    by (simp add: heartbeat_periods_ms_def heartbeatTask_def delay_increments_heartbeat_loop)
qed

text \<open>
  C10. With a tick rate that is positive and fits a \<open>TickType_t\<close>, every period of a run
  of \<open>heartbeatTask\<close> (the increment of each of its \<open>xTaskDelayUntil\<close> calls, which start
  from the tick count read at the start and follow one another by that increment) is
  1000 ms. The only heartbeat-consumer watch that a run of \<open>app_main\<close> configures is the
  one for \<open>masterNodeID\<close> with 1500 ms, made once the PDO configuration has succeeded, and
  every period of the task is strictly below every timeout that \<open>app_main\<close> configures.
\<close>

theorem heartbeat_period_below_timeout:
  assumes "0 < configTICK_RATE_HZ L" and "configTICK_RATE_HZ L < 2 ^ 32"
  shows "heartbeat_periods_ms L (calls (heartbeatTask L m)) = replicate m 1000
       \<and> filter is_delay_until (calls (heartbeatTask L m)) =
           map (\<lambda>j. XTaskDelayUntil
                      (xTaskGetTickCount L + of_nat j * of_nat (configTICK_RATE_HZ L))
                      (of_nat (configTICK_RATE_HZ L)))
             [0..<m]
       \<and> consumer_timeouts (calls (app_main L n)) =
           (if changeNMTState L NMT_COMMAND_GOTO_PRE_OPERATIONAL = ERROR_CODE_NOERROR L
               \<and> snd (PDOHelper L) = ERROR_CODE_NOERROR L
            then [(masterNodeID, 1500)] else [])
       \<and> list_all
           (\<lambda>(node, ms). node = masterNodeID
              \<and> list_all (\<lambda>period. period < ms)
                  (heartbeat_periods_ms L (calls (heartbeatTask L m))))
           (consumer_timeouts (calls (app_main L n)))"
proof -
  note periods = heartbeat_periods_heartbeatTask [OF assms, of m]
  have delays: "filter is_delay_until (calls (heartbeatTask L m)) =
           map (\<lambda>j. XTaskDelayUntil
                      (xTaskGetTickCount L + of_nat j * of_nat (configTICK_RATE_HZ L))
                      (of_nat (configTICK_RATE_HZ L)))
             [0..<m]"
    by (simp add: heartbeatTask_def calls_heartbeat_loop filter_concat comp_def
        delays_of_round concat_map_single sendFrequency_def)
  have below: "list_all (\<lambda>period. period < 1500) (replicate m (1000::nat))"
    by (simp add: list_all_iff)
  show ?thesis
    using below by (simp add: periods delays consumer_timeouts_app_main)
qed

theorem heartbeat_period_below_timeout_witness:
  "heartbeat_periods_ms demo_lib (calls (heartbeatTask demo_lib 2)) = [1000, 1000]
   \<and> filter is_delay_until (calls (heartbeatTask demo_lib 2)) =
       [XTaskDelayUntil 0 1000, XTaskDelayUntil 1000 1000]
   \<and> consumer_timeouts (calls (app_main demo_lib 3)) = [(127, 1500)]"
proof -
  have r: "0 < configTICK_RATE_HZ demo_lib" "configTICK_RATE_HZ demo_lib < 2 ^ 32"
    by (simp_all add: demo_lib_def)
  have two: "[0..<2] = [0, Suc 0]"
    by (simp add: numeral_2_eq_2)
  show ?thesis
    using heartbeat_period_below_timeout [OF r, of 2 3]
    by (simp add: two numeral_2_eq_2 demo_lib_def PDOHelper_def PDOHelper_ret_def
        masterNodeID_def)
qed

end
